theory Spec2Isabelle
  imports Complex_Main "HOL-Library.Multiset"
begin

section \<open>Values, library functions and errors\<close>

text \<open>
  The facade receives its creation and update payloads as Python keyword dictionaries
  whose values are untyped.  \<open>pyval\<close> covers the scalars a JSON body can hold, and
  the \<open>date\<close> objects that the facade itself puts into the dictionaries it passes on.
  Amounts are Python floats in the source and \<open>Numeric(10, 2)\<close> columns in the
  database; the model computes with exact rationals and stores them as they are.  It
  has no rounding, no \<open>NaN\<close> or \<open>Infinity\<close> and no column precision, so nothing below
  is a statement about the numeric value an amount takes: the theorems concern which
  checks run, which fields are written and which errors are raised, and their examples
  use small whole amounts, on which floats and rationals agree.
\<close>

datatype pyval = PNone | PInt int | PFloat rat | PStr string | PDate int

type_synonym payload = "string \<rightharpoonup> pyval"

text \<open>Python truthiness (\<open>if x\<close>, \<open>not x\<close>, \<open>x or y\<close>).\<close>

fun truthy :: "pyval \<Rightarrow> bool" where
  "truthy PNone = False"
| "truthy (PInt i) = (i \<noteq> 0)"
| "truthy (PFloat r) = (r \<noteq> 0)"
| "truthy (PStr s) = (s \<noteq> [])"
| "truthy (PDate d) = True"

text \<open>
  What the source takes from the Python library and the clock is a parameter of the
  model: the current date (as a day number), the current time, and the parsers behind
  \<open>datetime.strptime(s, '%Y-%m-%d')\<close>, \<open>int(s)\<close> and \<open>float(s)\<close> on a string, each
  returning \<open>None\<close> where Python raises \<open>ValueError\<close>.
\<close>

record pylib =
  date_today :: int
  utcnow :: nat
  strptime_date :: "string \<Rightarrow> int option"
  int_of_str :: "string \<Rightarrow> int option"
  float_of_str :: "string \<Rightarrow> rat option"

text \<open>
  Messages of the exceptions, as data.  The wrappers \<open>Error_creating\<close>,
  \<open>Error_updating\<close>, \<open>Error_deleting\<close> and \<open>Error_updating_progress\<close> stand for
  the prefixes the \<open>except Exception\<close> handlers put before \<open>str(e)\<close>.  The message
  \<open>Invalid_field\<close> names the first offending key in dictionary order in the
  source; a map keeps no order, so the model leaves the key out.
\<close>

datatype reason =
    Linked_account_not_found
  | Cannot_reserve rat rat
  | User_not_found
  | Deadline_in_past
  | Invalid_deadline_format
  | Linked_account_id_not_integer
  | Linked_amount_not_number
  | Title_required
  | Target_amount_not_positive
  | Invalid_category
  | Invalid_field
  | Invalid_status
  | Goal_not_found int
  | No_linked_account
  | Invalid_progress_type
  | Amount_not_positive
  | Days_out_of_range
  | Database_error
  | Python_error
  | Error_creating reason
  | Error_updating reason
  | Error_deleting reason
  | Error_updating_progress reason

datatype error =
    GoalValidationError reason
  | GoalNotFoundError reason
  | TypeError
  | AttributeError

text \<open>Sequencing of steps that may raise: the first exception ends the operation.\<close>

definition and_then :: "error + 'a \<Rightarrow> ('a \<Rightarrow> error + 'b) \<Rightarrow> error + 'b" where
  "and_then r f = (case r of Inl e \<Rightarrow> Inl e | Inr x \<Rightarrow> f x)"

text \<open>\<open>kwargs.get(k)\<close>: an absent key reads as \<open>None\<close>.\<close>

definition py_get :: "payload \<Rightarrow> string \<Rightarrow> pyval" where
  "py_get kwargs k = (case kwargs k of None \<Rightarrow> PNone | Some v \<Rightarrow> v)"

text \<open>\<open>int(x)\<close> and \<open>float(x)\<close>; \<open>None\<close> is \<open>ValueError\<close> or \<open>TypeError\<close>, which the
  callers catch together.  \<open>int\<close> of a float truncates towards zero.\<close>

fun py_int :: "pylib \<Rightarrow> pyval \<Rightarrow> int option" where
  "py_int env PNone = None"
| "py_int env (PDate d) = None"
| "py_int env (PInt i) = Some i"
| "py_int env (PFloat r) = Some (if r < 0 then - \<lfloor>- r\<rfloor> else \<lfloor>r\<rfloor>)"
| "py_int env (PStr s) = int_of_str env s"

fun py_float :: "pylib \<Rightarrow> pyval \<Rightarrow> rat option" where
  "py_float env PNone = None"
| "py_float env (PDate d) = None"
| "py_float env (PInt i) = Some (of_int i)"
| "py_float env (PFloat r) = Some r"
| "py_float env (PStr s) = float_of_str env s"

text \<open>\<open>str.strip()\<close> on ASCII text; on a value that is no string the attribute
  lookup raises \<open>AttributeError\<close>.\<close>

definition py_isspace :: "char \<Rightarrow> bool" where
  "py_isspace c = (c \<in> set [CHR '' '', CHR 0x09, CHR 0x0A, CHR 0x0B, CHR 0x0C, CHR 0x0D,
                             CHR 0x1C, CHR 0x1D, CHR 0x1E, CHR 0x1F])"

definition strip :: "string \<Rightarrow> string" where
  "strip s = rev (dropWhile py_isspace (rev (dropWhile py_isspace s)))"

fun py_strip :: "pyval \<Rightarrow> error + string" where
  "py_strip (PStr s) = Inr (strip s)"
| "py_strip v = Inl AttributeError"

section \<open>Data model\<close>

text \<open>
  The \<open>goals\<close> table (\<open>app/models/goal.py\<close>).  Dates are day numbers and timestamps
  are natural numbers.  \<open>current_amount\<close> is written only by the constructor and by
  \<open>update_progress\<close>, neither of which stores \<open>None\<close>, so it is not optional here.
\<close>

record goal =
  goal_id :: int
  user_id :: int
  title :: string
  description :: "string option"
  target_amount :: rat
  current_amount :: rat
  deadline :: "int option"
  category :: "string option"
  status :: string
  created_at :: nat
  updated_at :: nat
  linked_account_id :: "int option"
  linked_amount :: "rat option"

text \<open>The columns of \<open>accounts\<close> that the goal logic reads.\<close>

record account =
  account_id :: int
  account_user_id :: int
  is_active :: bool
  available_balance :: "rat option"

text \<open>
  The persisted state: the ids of the existing users, the accounts, the rows of the
  goals table in insertion order, and the next primary key the database hands out.
\<close>

record state =
  users :: "int list"
  accounts :: "account list"
  goals :: "goal list"
  next_goal_id :: int

section \<open>Goal entity\<close>

text \<open>\<open>x or 0\<close> on a nullable numeric column.\<close>

definition or_zero :: "rat option \<Rightarrow> rat" where
  "or_zero x = (case x of None \<Rightarrow> 0 | Some m \<Rightarrow> m)"

text \<open>\<open>Goal.__init__\<close>; \<open>created_at\<close> and \<open>updated_at\<close> take their column default
  when the row is inserted.\<close>

definition Goal_init ::
  "int \<Rightarrow> string \<Rightarrow> rat \<Rightarrow> string option \<Rightarrow> int option \<Rightarrow> string option \<Rightarrow> int option \<Rightarrow>
   rat option \<Rightarrow> goal" where
  "Goal_init uid ttl target descr dl cat la lm =
     \<lparr> goal_id = 0, user_id = uid, title = ttl, description = descr, target_amount = target,
       current_amount = 0, deadline = dl, category = cat, status = ''active'',
       created_at = 0, updated_at = 0, linked_account_id = la, linked_amount = lm \<rparr>"

text \<open>\<open>Goal.calculate_progress\<close>.\<close>

definition calculate_progress :: "goal \<Rightarrow> rat" where
  "calculate_progress g =
     (let total = current_amount g;
          total = (case linked_amount g of
                     None \<Rightarrow> total
                   | Some m \<Rightarrow> if m \<noteq> 0 then total + m else total)
      in if target_amount g = 0 then 0
         else min (total / target_amount g * 100) 100)"

text \<open>\<open>Goal.update_progress\<close>.\<close>

definition update_progress :: "pylib \<Rightarrow> goal \<Rightarrow> rat \<Rightarrow> string \<Rightarrow> goal" where
  "update_progress env g amount progress_type =
     (let g1 = (if progress_type = ''linked''
                then g\<lparr>linked_amount := Some (or_zero (linked_amount g) + amount)\<rparr>
                else g\<lparr>current_amount := current_amount g + amount\<rparr>);
          g2 = (if calculate_progress g1 \<ge> 100 then g1\<lparr>status := ''completed''\<rparr> else g1)
      in g2\<lparr>updated_at := utcnow env\<rparr>)"

section \<open>Repositories\<close>

text \<open>\<open>UserRepository.get_by_id\<close>, as far as the facade uses it.\<close>

definition user_exists :: "state \<Rightarrow> int \<Rightarrow> bool" where
  "user_exists st uid = (uid \<in> set (users st))"

text \<open>\<open>AccountRepository.get_by_id_and_user_id\<close>.\<close>

definition get_by_id_and_user_id :: "state \<Rightarrow> int \<Rightarrow> int \<Rightarrow> account option" where
  "get_by_id_and_user_id st aid uid =
     find (\<lambda>a. account_id a = aid \<and> account_user_id a = uid \<and> is_active a) (accounts st)"

text \<open>\<open>find_by(user_id=.., linked_account_id=..)\<close> of the goal repository.\<close>

definition find_by_linked_account :: "state \<Rightarrow> int \<Rightarrow> int \<Rightarrow> goal list" where
  "find_by_linked_account st uid aid =
     filter (\<lambda>g. user_id g = uid \<and> linked_account_id g = Some aid) (goals st)"

text \<open>\<open>GoalRepository.get_goal_by_id\<close>: \<open>find_one_by(id=.., user_id=..)\<close>.\<close>

definition repo_get_goal_by_id :: "state \<Rightarrow> int \<Rightarrow> int \<Rightarrow> goal option" where
  "repo_get_goal_by_id st gid uid = find (\<lambda>g. goal_id g = gid \<and> user_id g = uid) (goals st)"

text \<open>Writing back the row that a query returned: the first row matching the key.\<close>

fun store_row :: "int \<Rightarrow> int \<Rightarrow> goal \<Rightarrow> goal list \<Rightarrow> goal list" where
  "store_row gid uid g' [] = []"
| "store_row gid uid g' (g # gs) =
     (if goal_id g = gid \<and> user_id g = uid then g' # gs else g # store_row gid uid g' gs)"

fun delete_row :: "int \<Rightarrow> int \<Rightarrow> goal list \<Rightarrow> goal list" where
  "delete_row gid uid [] = []"
| "delete_row gid uid (g # gs) =
     (if goal_id g = gid \<and> user_id g = uid then gs else g # delete_row gid uid gs)"

text \<open>\<open>BaseRepository.create\<close>: the row gets its primary key and timestamps on insert.\<close>

definition insert_goal :: "pylib \<Rightarrow> state \<Rightarrow> goal \<Rightarrow> goal \<times> state" where
  "insert_goal env st g =
     (let g' = g\<lparr>goal_id := next_goal_id st, created_at := utcnow env, updated_at := utcnow env\<rparr>
      in (g', st\<lparr>goals := goals st @ [g'], next_goal_id := next_goal_id st + 1\<rparr>))"

text \<open>\<open>GoalRepository.update_goal_progress\<close>.\<close>

definition repo_update_goal_progress ::
  "pylib \<Rightarrow> state \<Rightarrow> int \<Rightarrow> int \<Rightarrow> rat \<Rightarrow> string \<Rightarrow> (error + goal) \<times> state" where
  "repo_update_goal_progress env st gid uid amount progress_type =
     (case repo_get_goal_by_id st gid uid of
        None \<Rightarrow> (Inl (GoalNotFoundError (Goal_not_found gid)), st)
      | Some g \<Rightarrow>
          (let g' = update_progress env g amount progress_type
           in (Inr g', st\<lparr>goals := store_row gid uid g' (goals st)\<rparr>)))"

text \<open>\<open>GoalRepository.delete_goal\<close>.\<close>

definition repo_delete_goal :: "state \<Rightarrow> int \<Rightarrow> int \<Rightarrow> (error + bool) \<times> state" where
  "repo_delete_goal st gid uid =
     (case repo_get_goal_by_id st gid uid of
        None \<Rightarrow> (Inl (GoalNotFoundError (Goal_not_found gid)), st)
      | Some g \<Rightarrow> (Inr True, st\<lparr>goals := delete_row gid uid (goals st)\<rparr>))"

text \<open>\<open>GoalRepository.get_goals_near_deadline\<close>; a row without deadline fails both
  comparisons.  \<open>ORDER BY deadline ASC\<close> is a sort on the deadline.\<close>

definition deadline_key :: "goal \<Rightarrow> int" where
  "deadline_key g = (case deadline g of None \<Rightarrow> 0 | Some d \<Rightarrow> d)"

definition near_deadline :: "pylib \<Rightarrow> int \<Rightarrow> int \<Rightarrow> goal \<Rightarrow> bool" where
  "near_deadline env uid days g =
     (user_id g = uid \<and> status g = ''active'' \<and>
      (case deadline g of None \<Rightarrow> False
       | Some d \<Rightarrow> d \<ge> date_today env \<and> d \<le> date_today env + days))"

definition repo_get_goals_near_deadline :: "pylib \<Rightarrow> state \<Rightarrow> int \<Rightarrow> int \<Rightarrow> goal list" where
  "repo_get_goals_near_deadline env st uid days =
     sort_key deadline_key (filter (near_deadline env uid days) (goals st))"

text \<open>
  What the session accepts for a column.  The database is outside the repository; the
  model takes a value that does not fit the column type (or \<open>None\<close> in a column that
  is not nullable) to make the commit raise, and does not model length limits,
  precision or foreign keys.  The outer \<open>None\<close> is that failure.
\<close>

fun col_text :: "pyval \<Rightarrow> string option option" where
  "col_text PNone = Some None"
| "col_text (PStr s) = Some (Some s)"
| "col_text v = None"

fun col_text_required :: "pyval \<Rightarrow> string option" where
  "col_text_required (PStr s) = Some s"
| "col_text_required v = None"

fun col_numeric :: "pyval \<Rightarrow> rat option option" where
  "col_numeric PNone = Some None"
| "col_numeric (PInt i) = Some (Some (of_int i))"
| "col_numeric (PFloat r) = Some (Some r)"
| "col_numeric v = None"

fun col_numeric_required :: "pyval \<Rightarrow> rat option" where
  "col_numeric_required (PInt i) = Some (of_int i)"
| "col_numeric_required (PFloat r) = Some r"
| "col_numeric_required v = None"

fun col_integer :: "pyval \<Rightarrow> int option option" where
  "col_integer PNone = Some None"
| "col_integer (PInt i) = Some (Some i)"
| "col_integer v = None"

fun col_date :: "pyval \<Rightarrow> int option option" where
  "col_date PNone = Some None"
| "col_date (PDate d) = Some (Some d)"
| "col_date v = None"

text \<open>The value a column holds after \<open>setattr\<close> for the keys of the dictionary:
  the old value where the key is absent.\<close>

definition new_value :: "(pyval \<Rightarrow> 'a option) \<Rightarrow> 'a \<Rightarrow> pyval option \<Rightarrow> 'a option" where
  "new_value col old entry = (case entry of None \<Rightarrow> Some old | Some v \<Rightarrow> col v)"

text \<open>
  \<open>GoalRepository.create_goal\<close> over \<open>BaseRepository.create\<close>: the constructor on the
  entries of \<open>data\<close>, add and commit; any exception is rolled back and raised again as
  \<open>GoalValidationError\<close>.
  \<open>data\<close> holds exactly the eight keys the facade puts there.
\<close>

definition repo_create_goal :: "pylib \<Rightarrow> state \<Rightarrow> int \<Rightarrow> payload \<Rightarrow> (error + goal) \<times> state" where
  "repo_create_goal env st uid data =
     (case (col_text_required (py_get data ''title''),
            col_numeric_required (py_get data ''target_amount''),
            col_text (py_get data ''description''),
            col_date (py_get data ''deadline''),
            col_text (py_get data ''category''),
            col_integer (py_get data ''linked_account_id''),
            col_numeric (py_get data ''linked_amount'')) of
        (Some ttl, Some target, Some descr, Some dl, Some cat, Some la, Some lm) \<Rightarrow>
          (case insert_goal env st (Goal_init uid ttl target descr dl cat la lm) of
             (g, st') \<Rightarrow> (Inr g, st'))
      | _ \<Rightarrow> (Inl (GoalValidationError (Error_creating Database_error)), st))"

text \<open>
  \<open>BaseRepository.update\<close>: \<open>setattr\<close> for every key of \<open>updates\<close> that is an attribute,
  then the timestamp, then commit.  The model covers the eight keys that the facade
  lets through.
\<close>

definition apply_updates :: "pylib \<Rightarrow> goal \<Rightarrow> payload \<Rightarrow> goal option" where
  "apply_updates env g updates =
     (case (new_value col_text_required (title g) (updates ''title''),
            new_value col_text (description g) (updates ''description''),
            new_value col_numeric_required (target_amount g) (updates ''target_amount''),
            new_value col_date (deadline g) (updates ''deadline''),
            new_value col_text (category g) (updates ''category''),
            new_value col_text_required (status g) (updates ''status''),
            new_value col_integer (linked_account_id g) (updates ''linked_account_id''),
            new_value col_numeric (linked_amount g) (updates ''linked_amount'')) of
        (Some ttl, Some descr, Some target, Some dl, Some cat, Some stat, Some la, Some lm) \<Rightarrow>
          Some (g\<lparr>title := ttl, description := descr, target_amount := target, deadline := dl,
                  category := cat, status := stat, linked_account_id := la,
                  linked_amount := lm, updated_at := utcnow env\<rparr>)
      | _ \<Rightarrow> None)"

text \<open>\<open>GoalRepository.update_goal\<close>.\<close>

definition repo_update_goal ::
  "pylib \<Rightarrow> state \<Rightarrow> int \<Rightarrow> int \<Rightarrow> payload \<Rightarrow> (error + goal) \<times> state" where
  "repo_update_goal env st gid uid updates =
     (case repo_get_goal_by_id st gid uid of
        None \<Rightarrow> (Inl (GoalNotFoundError (Goal_not_found gid)), st)
      | Some g \<Rightarrow>
          (case apply_updates env g updates of
             None \<Rightarrow> (Inl (GoalValidationError (Error_updating Database_error)), st)
           | Some g' \<Rightarrow> (Inr g', st\<lparr>goals := store_row gid uid g' (goals st)\<rparr>)))"

section \<open>Facade\<close>

definition VALID_CATEGORIES :: "string list" where
  "VALID_CATEGORIES = [''savings'', ''investment'', ''debt'', ''emergency'', ''vacation'',
                       ''education'', ''bills'', ''other'']"

definition VALID_STATUSES :: "string list" where
  "VALID_STATUSES = [''active'', ''completed'', ''cancelled'']"

definition VALID_FIELDS :: "string list" where
  "VALID_FIELDS = [''title'', ''description'', ''target_amount'', ''deadline'', ''category'',
                   ''status'', ''linked_account_id'', ''linked_amount'']"

text \<open>\<open>str(e)\<close> in the \<open>except Exception as e\<close> handlers.\<close>

fun message :: "error \<Rightarrow> reason" where
  "message (GoalValidationError r) = r"
| "message (GoalNotFoundError r) = r"
| "message e = Python_error"

text \<open>\<open>x in xs\<close> for a list of strings: only a string can be equal to a member.\<close>

fun str_in :: "pyval \<Rightarrow> string list \<Rightarrow> bool" where
  "str_in (PStr s) xs = (s \<in> set xs)"
| "str_in v xs = False"

text \<open>\<open>x <= 0\<close>: a comparison of \<open>None\<close>, a string or a date with \<open>0\<close> raises
  \<open>TypeError\<close>.\<close>

fun py_le_zero :: "pyval \<Rightarrow> error + bool" where
  "py_le_zero (PInt i) = Inr (i \<le> 0)"
| "py_le_zero (PFloat r) = Inr (r \<le> 0)"
| "py_le_zero v = Inl TypeError"

text \<open>\<open>GoalFacade._validate_linked_amount_total\<close>.\<close>

definition validate_linked_amount_total ::
  "state \<Rightarrow> int \<Rightarrow> int \<Rightarrow> rat \<Rightarrow> int option \<Rightarrow> error + unit" where
  "validate_linked_amount_total st uid la lm exclude_goal_id =
     (case get_by_id_and_user_id st la uid of
        None \<Rightarrow> Inl (GoalValidationError Linked_account_not_found)
      | Some account \<Rightarrow>
          (let gs = find_by_linked_account st uid la;
               total_reserved =
                 sum_list (map (\<lambda>g. or_zero (linked_amount g))
                   (filter (\<lambda>g. exclude_goal_id = None \<or> Some (goal_id g) \<noteq> exclude_goal_id) gs));
               balance = or_zero (available_balance account);
               total_needed = total_reserved + lm
           in if total_needed > balance
              then Inl (GoalValidationError (Cannot_reserve balance total_reserved))
              else Inr ()))"

text \<open>\<open>GoalFacade._validate_user_exists\<close>.\<close>

definition validate_user_exists :: "state \<Rightarrow> int \<Rightarrow> error + unit" where
  "validate_user_exists st uid =
     (if user_exists st uid then Inr () else Inl (GoalValidationError User_not_found))"

text \<open>\<open>GoalFacade._validate_and_parse_deadline\<close>; \<open>strptime\<close> on a value that is no
  string raises \<open>TypeError\<close>, which the handler for \<open>ValueError\<close> lets through.\<close>

definition validate_and_parse_deadline :: "pylib \<Rightarrow> pyval \<Rightarrow> error + pyval" where
  "validate_and_parse_deadline env dl =
     (if \<not> truthy dl then Inr PNone
      else case dl of
        PStr s \<Rightarrow>
          (case strptime_date env s of
             None \<Rightarrow> Inl (GoalValidationError Invalid_deadline_format)
           | Some d \<Rightarrow>
               if d < date_today env then Inl (GoalValidationError Deadline_in_past)
               else Inr (PDate d))
      | _ \<Rightarrow> Inl TypeError)"

text \<open>\<open>GoalFacade._validate_and_convert_linked_fields\<close>.\<close>

definition validate_and_convert_linked_fields ::
  "pylib \<Rightarrow> pyval \<Rightarrow> pyval \<Rightarrow> error + (int option \<times> rat option)" where
  "validate_and_convert_linked_fields env la lm =
     and_then
       (if la \<noteq> PNone \<and> la \<noteq> PStr []
        then (case py_int env la of
                None \<Rightarrow> Inl (GoalValidationError Linked_account_id_not_integer)
              | Some i \<Rightarrow> Inr (Some i))
        else Inr None)
       (\<lambda>la'.
     and_then
       (if lm \<noteq> PNone \<and> lm \<noteq> PStr []
        then (case py_float env lm of
                None \<Rightarrow> Inl (GoalValidationError Linked_amount_not_number)
              | Some r \<Rightarrow> Inr (Some r))
        else Inr None)
       (\<lambda>lm'. Inr (la', lm')))"

text \<open>The guarded call \<open>if linked_account_id and linked_amount is not None:
  self._validate_linked_amount_total(...)\<close> of \<open>create_goal\<close> and \<open>update_goal\<close>.\<close>

definition check_linked ::
  "state \<Rightarrow> int \<Rightarrow> int option \<Rightarrow> rat option \<Rightarrow> int option \<Rightarrow> error + unit" where
  "check_linked st uid la lm exclude_goal_id =
     (case (la, lm) of
        (Some a, Some m) \<Rightarrow>
          if a \<noteq> 0 then validate_linked_amount_total st uid a m exclude_goal_id else Inr ()
      | _ \<Rightarrow> Inr ())"

definition pyval_of_int :: "int option \<Rightarrow> pyval" where
  "pyval_of_int x = (case x of None \<Rightarrow> PNone | Some i \<Rightarrow> PInt i)"

definition pyval_of_float :: "rat option \<Rightarrow> pyval" where
  "pyval_of_float x = (case x of None \<Rightarrow> PNone | Some r \<Rightarrow> PFloat r)"

text \<open>\<open>s or None\<close> for a string.\<close>

definition str_or_none :: "string \<Rightarrow> pyval" where
  "str_or_none s = (if s = [] then PNone else PStr s)"

text \<open>\<open>kwargs.get(k, '')\<close>.\<close>

definition py_get_str :: "payload \<Rightarrow> string \<Rightarrow> pyval" where
  "py_get_str kwargs k = (case kwargs k of None \<Rightarrow> PStr [] | Some v \<Rightarrow> v)"

text \<open>The validating part of \<open>GoalFacade.create_goal\<close>, up to the dictionary \<open>data\<close>
  (its \<open>user_id\<close> entry is passed beside it).\<close>

definition create_goal_data :: "pylib \<Rightarrow> state \<Rightarrow> int \<Rightarrow> payload \<Rightarrow> error + payload" where
  "create_goal_data env st uid kwargs =
     and_then (validate_user_exists st uid) (\<lambda>_.
     and_then (py_strip (py_get_str kwargs ''title'')) (\<lambda>ttl.
       if ttl = [] then Inl (GoalValidationError Title_required)
       else
     and_then (if \<not> truthy (py_get kwargs ''target_amount'') then Inr True
               else py_le_zero (py_get kwargs ''target_amount'')) (\<lambda>bad.
       if bad then Inl (GoalValidationError Target_amount_not_positive)
       else
     and_then (validate_and_parse_deadline env (py_get kwargs ''deadline'')) (\<lambda>deadline_date.
       if truthy (py_get kwargs ''category'') \<and>
          \<not> str_in (py_get kwargs ''category'') VALID_CATEGORIES
       then Inl (GoalValidationError Invalid_category)
       else
     and_then (validate_and_convert_linked_fields env (py_get kwargs ''linked_account_id'')
                 (py_get kwargs ''linked_amount'')) (\<lambda>(la, lm).
     and_then (check_linked st uid la lm None) (\<lambda>_.
     and_then (py_strip (py_get_str kwargs ''description'')) (\<lambda>descr.
       Inr [''title'' \<mapsto> PStr ttl,
            ''target_amount'' \<mapsto> py_get kwargs ''target_amount'',
            ''description'' \<mapsto> str_or_none descr,
            ''deadline'' \<mapsto> deadline_date,
            ''category'' \<mapsto> py_get kwargs ''category'',
            ''linked_account_id'' \<mapsto> pyval_of_int la,
            ''linked_amount'' \<mapsto> pyval_of_float lm])))))))"

text \<open>\<open>GoalFacade.create_goal\<close>.  The facade methods return \<open>goal.to_dict()\<close>; the
  model returns the entity that \<open>to_dict\<close> reads.\<close>

definition create_goal :: "pylib \<Rightarrow> state \<Rightarrow> int \<Rightarrow> payload \<Rightarrow> (error + goal) \<times> state" where
  "create_goal env st uid kwargs =
     (case create_goal_data env st uid kwargs of
        Inl e \<Rightarrow> (Inl e, st)
      | Inr data \<Rightarrow>
          (case repo_create_goal env st uid data of
             (Inl e, st') \<Rightarrow> (Inl (GoalValidationError (Error_creating (message e))), st')
           | (Inr g, st') \<Rightarrow> (Inr g, st')))"

text \<open>\<open>GoalFacade.get_goal_by_id\<close>.\<close>

definition get_goal_by_id :: "state \<Rightarrow> int \<Rightarrow> int \<Rightarrow> error + goal" where
  "get_goal_by_id st gid uid =
     and_then (validate_user_exists st uid) (\<lambda>_.
       case repo_get_goal_by_id st gid uid of
         None \<Rightarrow> Inl (GoalNotFoundError (Goal_not_found gid))
       | Some g \<Rightarrow> Inr g)"

text \<open>
  The validating part of \<open>GoalFacade.update_goal\<close>, in the two stages of the source:
  the checks of the user, the field names, \<open>status\<close>, \<open>target_amount\<close> and
  \<open>deadline\<close>, and then the block on the linked fields.  Each stage returns the
  dictionary \<open>updates\<close> as the source has rewritten it by then.
\<close>

definition update_goal_plain_fields :: "pylib \<Rightarrow> state \<Rightarrow> int \<Rightarrow> payload \<Rightarrow> error + payload" where
  "update_goal_plain_fields env st uid updates =
     and_then (validate_user_exists st uid) (\<lambda>_.
       if \<not> dom updates \<subseteq> set VALID_FIELDS then Inl (GoalValidationError Invalid_field)
       else if ''status'' \<in> dom updates \<and> \<not> str_in (py_get updates ''status'') VALID_STATUSES
       then Inl (GoalValidationError Invalid_status)
       else
     and_then (if ''target_amount'' \<in> dom updates
               then py_le_zero (py_get updates ''target_amount'') else Inr False) (\<lambda>bad.
       if bad then Inl (GoalValidationError Target_amount_not_positive)
       else if ''deadline'' \<in> dom updates
       then and_then (validate_and_parse_deadline env (py_get updates ''deadline''))
              (\<lambda>d. Inr (updates(''deadline'' \<mapsto> d)))
       else Inr updates))"

definition update_goal_linked_fields ::
  "pylib \<Rightarrow> state \<Rightarrow> int \<Rightarrow> int \<Rightarrow> payload \<Rightarrow> error + payload" where
  "update_goal_linked_fields env st gid uid updates =
     (if ''linked_account_id'' \<in> dom updates \<or> ''linked_amount'' \<in> dom updates
      then
        and_then (validate_and_convert_linked_fields env (py_get updates ''linked_account_id'')
                    (py_get updates ''linked_amount'')) (\<lambda>(la, lm).
        and_then (check_linked st uid la lm (Some gid)) (\<lambda>_.
          Inr (updates(''linked_account_id'' \<mapsto> pyval_of_int la,
                       ''linked_amount'' \<mapsto> pyval_of_float lm))))
      else Inr updates)"

definition update_goal_updates ::
  "pylib \<Rightarrow> state \<Rightarrow> int \<Rightarrow> int \<Rightarrow> payload \<Rightarrow> error + payload" where
  "update_goal_updates env st gid uid updates =
     and_then (update_goal_plain_fields env st uid updates)
       (update_goal_linked_fields env st gid uid)"

text \<open>\<open>GoalFacade.update_goal\<close>.\<close>

definition update_goal ::
  "pylib \<Rightarrow> state \<Rightarrow> int \<Rightarrow> int \<Rightarrow> payload \<Rightarrow> (error + goal) \<times> state" where
  "update_goal env st gid uid updates =
     (case update_goal_updates env st gid uid updates of
        Inl e \<Rightarrow> (Inl e, st)
      | Inr updates' \<Rightarrow>
          (case repo_update_goal env st gid uid updates' of
             (Inl e, st') \<Rightarrow> (Inl (GoalValidationError (Error_updating (message e))), st')
           | (Inr g, st') \<Rightarrow> (Inr g, st')))"

text \<open>\<open>GoalFacade.delete_goal\<close>.\<close>

definition delete_goal :: "state \<Rightarrow> int \<Rightarrow> int \<Rightarrow> (error + bool) \<times> state" where
  "delete_goal st gid uid =
     (case validate_user_exists st uid of
        Inl e \<Rightarrow> (Inl e, st)
      | Inr _ \<Rightarrow>
          (case repo_delete_goal st gid uid of
             (Inl e, st') \<Rightarrow> (Inl (GoalValidationError (Error_deleting (message e))), st')
           | (Inr b, st') \<Rightarrow> (Inr b, st')))"

text \<open>\<open>GoalFacade._validate_amount\<close> and \<open>GoalFacade._validate_progress_type\<close>.\<close>

definition validate_amount :: "rat \<Rightarrow> error + unit" where
  "validate_amount amount =
     (if amount \<le> 0 then Inl (GoalValidationError Amount_not_positive) else Inr ())"

definition validate_progress_type :: "string \<Rightarrow> error + unit" where
  "validate_progress_type progress_type =
     (if progress_type \<notin> set [''manual'', ''linked'']
      then Inl (GoalValidationError Invalid_progress_type) else Inr ())"

text \<open>The checks of \<open>GoalFacade.update_goal_progress\<close> that come before the write.\<close>

definition update_goal_progress_checks ::
  "state \<Rightarrow> int \<Rightarrow> int \<Rightarrow> rat \<Rightarrow> string \<Rightarrow> error + unit" where
  "update_goal_progress_checks st gid uid amount progress_type =
     and_then (validate_user_exists st uid) (\<lambda>_.
     and_then (validate_amount amount) (\<lambda>_.
     and_then (validate_progress_type progress_type) (\<lambda>_.
       if progress_type = ''linked''
       then (case repo_get_goal_by_id st gid uid of
               None \<Rightarrow> Inl (GoalValidationError (Goal_not_found gid))
             | Some g \<Rightarrow>
                 (case linked_account_id g of
                    None \<Rightarrow> Inl (GoalValidationError No_linked_account)
                  | Some a \<Rightarrow>
                      if a = 0 then Inl (GoalValidationError No_linked_account)
                      else validate_linked_amount_total st uid a
                             (or_zero (linked_amount g) + amount) (Some gid)))
       else Inr ())))"

text \<open>\<open>GoalFacade.update_goal_progress\<close>.\<close>

definition update_goal_progress ::
  "pylib \<Rightarrow> state \<Rightarrow> int \<Rightarrow> int \<Rightarrow> rat \<Rightarrow> string \<Rightarrow> (error + goal) \<times> state" where
  "update_goal_progress env st gid uid amount progress_type =
     (case update_goal_progress_checks st gid uid amount progress_type of
        Inl e \<Rightarrow> (Inl e, st)
      | Inr _ \<Rightarrow>
          (case repo_update_goal_progress env st gid uid amount progress_type of
             (Inl e, st') \<Rightarrow>
               (Inl (GoalValidationError (Error_updating_progress (message e))), st')
           | (Inr g, st') \<Rightarrow> (Inr g, st')))"

text \<open>\<open>GoalFacade.get_goals_near_deadline\<close>.\<close>

definition get_goals_near_deadline :: "pylib \<Rightarrow> state \<Rightarrow> int \<Rightarrow> int \<Rightarrow> error + goal list" where
  "get_goals_near_deadline env st uid days =
     and_then (validate_user_exists st uid) (\<lambda>_.
       if days < 1 \<or> days > 30 then Inl (GoalValidationError Days_out_of_range)
       else Inr (repo_get_goals_near_deadline env st uid days))"

section \<open>Specification-side notions and examples\<close>

text \<open>
  A goal has passed the reservation check in state \<open>st\<close> when it names an account and
  \<open>_validate_linked_amount_total\<close>, run in \<open>st\<close> for that account and the goal's
  \<open>linked_amount\<close>, returns without raising.
\<close>

definition ledger_check_passed :: "state \<Rightarrow> int \<Rightarrow> goal \<Rightarrow> int option \<Rightarrow> bool" where
  "ledger_check_passed st uid g exclude_goal_id =
     (case linked_account_id g of
        None \<Rightarrow> False
      | Some a \<Rightarrow>
          validate_linked_amount_total st uid a (or_zero (linked_amount g)) exclude_goal_id
            = Inr ())"

text \<open>
  Concrete data for the examples: a library in which no string parses (the examples
  pass numbers, not strings), two users, and one active account of user 1 with an
  available balance of 500.
\<close>

definition example_env :: pylib where
  "example_env = \<lparr> date_today = 20000, utcnow = 1000, strptime_date = (\<lambda>s. None),
                   int_of_str = (\<lambda>s. None), float_of_str = (\<lambda>s. None) \<rparr>"

definition account_7 :: account where
  "account_7 = \<lparr> account_id = 7, account_user_id = 1, is_active = True,
                 available_balance = Some 500 \<rparr>"

definition scenario_state :: state where
  "scenario_state = \<lparr> users = [1, 2], accounts = [account_7], goals = [], next_goal_id = 1 \<rparr>"

definition goal_A_payload :: payload where
  "goal_A_payload = [''title'' \<mapsto> PStr ''Goal A'', ''target_amount'' \<mapsto> PInt 1000,
                     ''linked_account_id'' \<mapsto> PInt 7, ''linked_amount'' \<mapsto> PInt 500]"

definition goal_A :: "pylib \<Rightarrow> goal" where
  "goal_A env =
     \<lparr> goal_id = 1, user_id = 1, title = ''Goal A'', description = None, target_amount = 1000,
       current_amount = 0, deadline = None, category = None, status = ''active'',
       created_at = utcnow env, updated_at = utcnow env, linked_account_id = Some 7,
       linked_amount = Some 500 \<rparr>"

definition scenario_after_A :: "pylib \<Rightarrow> state" where
  "scenario_after_A env = scenario_state\<lparr>goals := [goal_A env], next_goal_id := 2\<rparr>"

definition goal_A_payload_with_status :: payload where
  "goal_A_payload_with_status =
     goal_A_payload(''status'' \<mapsto> PStr ''completed'', ''current_amount'' \<mapsto> PInt 999)"

definition unlinked_amount_payload :: payload where
  "unlinked_amount_payload = [''title'' \<mapsto> PStr ''Trip'', ''target_amount'' \<mapsto> PInt 100,
                              ''linked_amount'' \<mapsto> PInt 50]"

definition trip_goal :: goal where
  "trip_goal =
     \<lparr> goal_id = 1, user_id = 1, title = ''Trip'', description = None, target_amount = 100,
       current_amount = 0, deadline = None, category = None, status = ''active'',
       created_at = 1000, updated_at = 1000, linked_account_id = None,
       linked_amount = Some 50 \<rparr>"

definition example_goal :: "int \<Rightarrow> int \<Rightarrow> rat \<Rightarrow> int \<Rightarrow> int option \<Rightarrow> rat option \<Rightarrow> goal" where
  "example_goal gid uid target dl la lm =
     \<lparr> goal_id = gid, user_id = uid, title = ''Goal'', description = None,
       target_amount = target, current_amount = 0, deadline = Some dl, category = None,
       status = ''active'', created_at = 0, updated_at = 0, linked_account_id = la,
       linked_amount = lm \<rparr>"

text \<open>Four goals: three of user 1 (the first reserves 200 on account 7) and one of
  user 2.\<close>

definition example_state :: state where
  "example_state =
     \<lparr> users = [1, 2], accounts = [account_7],
       goals = [example_goal 1 1 1000 20005 (Some 7) (Some 200),
                example_goal 2 1 100 20002 None None,
                example_goal 3 2 50 20001 None None,
                example_goal 4 1 100 20040 None None],
       next_goal_id = 5 \<rparr>"

definition goal_C_payload :: payload where
  "goal_C_payload = [''title'' \<mapsto> PStr ''Goal C'', ''target_amount'' \<mapsto> PInt 400,
                     ''linked_account_id'' \<mapsto> PInt 7, ''linked_amount'' \<mapsto> PInt 100]"

definition goal_C :: goal where
  "goal_C =
     \<lparr> goal_id = 5, user_id = 1, title = ''Goal C'', description = None, target_amount = 400,
       current_amount = 0, deadline = None, category = None, status = ''active'',
       created_at = 1000, updated_at = 1000, linked_account_id = Some 7,
       linked_amount = Some 100 \<rparr>"

definition relink_payload :: payload where
  "relink_payload = [''linked_account_id'' \<mapsto> PInt 7, ''linked_amount'' \<mapsto> PInt 300]"

definition amount_only_payload :: "int \<Rightarrow> payload" where
  "amount_only_payload n = [''linked_amount'' \<mapsto> PInt n]"

definition retitle_payload :: payload where
  "retitle_payload = [''title'' \<mapsto> PStr ''New'']"

section \<open>Auxiliary facts\<close>

lemmas model_defs = Let_def create_goal_def create_goal_data_def and_then_def
  validate_user_exists_def user_exists_def py_get_str_def py_get_def strip_def py_isspace_def
  validate_and_parse_deadline_def validate_and_convert_linked_fields_def check_linked_def
  validate_linked_amount_total_def get_by_id_and_user_id_def find_by_linked_account_def
  or_zero_def repo_create_goal_def insert_goal_def Goal_init_def str_or_none_def
  pyval_of_int_def pyval_of_float_def update_goal_def update_goal_updates_def
  update_goal_plain_fields_def update_goal_linked_fields_def repo_update_goal_def
  apply_updates_def new_value_def repo_get_goal_by_id_def VALID_FIELDS_def VALID_STATUSES_def
  VALID_CATEGORIES_def delete_goal_def repo_delete_goal_def get_goal_by_id_def
  update_goal_progress_def update_goal_progress_checks_def validate_amount_def
  validate_progress_type_def repo_update_goal_progress_def update_progress_def
  calculate_progress_def get_goals_near_deadline_def repo_get_goals_near_deadline_def
  near_deadline_def deadline_key_def ledger_check_passed_def

lemmas example_defs = example_env_def account_7_def scenario_state_def goal_A_payload_def
  goal_A_def scenario_after_A_def example_goal_def example_state_def
  goal_A_payload_with_status_def unlinked_amount_payload_def trip_goal_def goal_C_payload_def
  goal_C_def relink_payload_def amount_only_payload_def retitle_payload_def

subsection \<open>Progress of one goal\<close>

lemma update_progress_target [simp]:
  "target_amount (update_progress env g amount t) = target_amount g"
  "goal_id (update_progress env g amount t) = goal_id g"
  "user_id (update_progress env g amount t) = user_id g"
  "linked_account_id (update_progress env g amount t) = linked_account_id g"
  by (simp_all add: update_progress_def Let_def)

lemma update_progress_amounts:
  "current_amount (update_progress env g amount t) =
     (if t = ''linked'' then current_amount g else current_amount g + amount)"
  "linked_amount (update_progress env g amount t) =
     (if t = ''linked'' then Some (or_zero (linked_amount g) + amount) else linked_amount g)"
  by (simp_all add: update_progress_def Let_def)

lemma find_store_row:
  assumes "goal_id g' = gid" "user_id g' = uid"
    and "find (\<lambda>g. goal_id g = gid \<and> user_id g = uid) gs = Some g"
  shows "find (\<lambda>g. goal_id g = gid \<and> user_id g = uid) (store_row gid uid g' gs) = Some g'"
  using assms by (induction gs) (auto split: if_splits)

lemma update_goal_progress_success:
  assumes "update_goal_progress env st gid uid amount t = (Inr g', st')"
  shows "\<exists>g. repo_get_goal_by_id st gid uid = Some g \<and> g' = update_progress env g amount t \<and>
             st' = st\<lparr>goals := store_row gid uid g' (goals st)\<rparr> \<and> amount > 0 \<and>
             t \<in> {''manual'', ''linked''} \<and> user_exists st uid \<and>
             update_goal_progress_checks st gid uid amount t = Inr ()"
  using assms
  by (auto simp: update_goal_progress_def update_goal_progress_checks_def and_then_def
        validate_user_exists_def validate_amount_def validate_progress_type_def
        repo_update_goal_progress_def Let_def
      split: sum.splits if_splits option.splits prod.splits)

subsection \<open>Deadline query, creation and update\<close>

lemma sorted_near_deadline:
  "sorted (map (\<lambda>g. the (deadline g)) (repo_get_goals_near_deadline env st uid days))"
proof -
  let ?gs = "repo_get_goals_near_deadline env st uid days"
  have "\<forall>g \<in> set ?gs. deadline g \<noteq> None"
    by (auto simp: repo_get_goals_near_deadline_def near_deadline_def split: option.splits)
  then have eq: "map (\<lambda>g. the (deadline g)) ?gs = map deadline_key ?gs"
    by (auto simp: deadline_key_def split: option.splits)
  have srt: "sorted (map deadline_key ?gs)"
    by (simp add: repo_get_goals_near_deadline_def)
  show ?thesis unfolding eq by (rule srt)
qed

lemma mset_near_deadline:
  "mset (repo_get_goals_near_deadline env st uid days) =
     filter_mset (\<lambda>g. user_id g = uid \<and> status g = ''active'' \<and>
                      (\<exists>d. deadline g = Some d \<and> date_today env \<le> d \<and> d \<le> date_today env + days))
       (mset (goals st))"
proof -
  have "near_deadline env uid days =
          (\<lambda>g. user_id g = uid \<and> status g = ''active'' \<and>
                (\<exists>d. deadline g = Some d \<and> date_today env \<le> d \<and> d \<le> date_today env + days))"
    by (auto simp: near_deadline_def fun_eq_iff split: option.splits)
  then show ?thesis by (simp add: repo_get_goals_near_deadline_def)
qed

lemma repo_create_goal_fields:
  assumes "repo_create_goal env st uid data = (Inr g, st')"
  shows "status g = ''active'' \<and> current_amount g = 0 \<and> user_id g = uid \<and>
         goal_id g = next_goal_id st \<and> st' = st\<lparr>goals := goals st @ [g], next_goal_id := next_goal_id st + 1\<rparr>"
  using assms
  by (auto simp: repo_create_goal_def insert_goal_def Goal_init_def Let_def
      split: option.splits prod.splits)

lemma create_goal_success:
  assumes "create_goal env st uid kwargs = (Inr g, st')"
  shows "\<exists>data. create_goal_data env st uid kwargs = Inr data \<and>
                repo_create_goal env st uid data = (Inr g, st')"
  using assms by (auto simp: create_goal_def split: sum.splits prod.splits)

lemma py_get_ignores:
  "k \<noteq> ''status'' \<Longrightarrow> k \<noteq> ''current_amount'' \<Longrightarrow>
   py_get (kwargs(''status'' \<mapsto> v, ''current_amount'' \<mapsto> w)) k = py_get kwargs k"
  "k \<noteq> ''status'' \<Longrightarrow> k \<noteq> ''current_amount'' \<Longrightarrow>
   py_get_str (kwargs(''status'' \<mapsto> v, ''current_amount'' \<mapsto> w)) k = py_get_str kwargs k"
  by (simp_all add: py_get_def py_get_str_def)

lemma create_goal_data_ignores:
  "create_goal_data env st uid (kwargs(''status'' \<mapsto> v, ''current_amount'' \<mapsto> w)) =
   create_goal_data env st uid kwargs"
  by (simp add: create_goal_data_def py_get_ignores cong: if_cong)

lemma col_of_pyval [simp]:
  "col_integer (pyval_of_int la) = Some la"
  "col_numeric (pyval_of_float lm) = Some lm"
  by (simp_all add: pyval_of_int_def pyval_of_float_def split: option.splits)

lemma create_goal_data_linked:
  assumes "create_goal_data env st uid kwargs = Inr data"
  shows "\<exists>la lm. validate_and_convert_linked_fields env (py_get kwargs ''linked_account_id'')
                    (py_get kwargs ''linked_amount'') = Inr (la, lm) \<and>
                 check_linked st uid la lm None = Inr () \<and>
                 py_get data ''linked_account_id'' = pyval_of_int la \<and>
                 py_get data ''linked_amount'' = pyval_of_float lm"
  using assms
  by (auto simp: create_goal_data_def and_then_def py_get_def
      split: sum.splits if_splits prod.splits)

lemma repo_create_goal_linked:
  assumes "repo_create_goal env st uid data = (Inr g, st')"
  shows "col_integer (py_get data ''linked_account_id'') = Some (linked_account_id g) \<and>
         col_numeric (py_get data ''linked_amount'') = Some (linked_amount g)"
  using assms
  by (auto simp: repo_create_goal_def insert_goal_def Goal_init_def Let_def
      split: option.splits prod.splits)

lemma create_goal_linked:
  assumes "create_goal env st uid kwargs = (Inr g, st')"
  shows "validate_and_convert_linked_fields env (py_get kwargs ''linked_account_id'')
           (py_get kwargs ''linked_amount'') = Inr (linked_account_id g, linked_amount g) \<and>
         check_linked st uid (linked_account_id g) (linked_amount g) None = Inr ()"
proof -
  from assms obtain data where d: "create_goal_data env st uid kwargs = Inr data"
    and r: "repo_create_goal env st uid data = (Inr g, st')"
    by (auto simp: create_goal_def split: sum.splits prod.splits)
  from create_goal_data_linked[OF d] repo_create_goal_linked[OF r]
  show ?thesis by auto
qed

lemma check_linked_passed:
  assumes "check_linked st uid (linked_account_id g) (linked_amount g) excl = Inr ()"
    and "linked_account_id g = Some a" "a \<noteq> 0" "linked_amount g \<noteq> None"
  shows "ledger_check_passed st uid g excl"
  using assms by (auto simp: check_linked_def ledger_check_passed_def or_zero_def)

lemma repo_update_goal_success:
  assumes "repo_update_goal env st gid uid u = (Inr g', st')"
  shows "\<exists>g. repo_get_goal_by_id st gid uid = Some g \<and> apply_updates env g u = Some g' \<and>
             st' = st\<lparr>goals := store_row gid uid g' (goals st)\<rparr>"
  using assms by (auto simp: repo_update_goal_def split: option.splits)

lemma apply_updates_linked:
  assumes "apply_updates env g u = Some g'"
  shows "new_value col_integer (linked_account_id g) (u ''linked_account_id'') = Some (linked_account_id g')"
    and "new_value col_numeric (linked_amount g) (u ''linked_amount'') = Some (linked_amount g')"
    and "goal_id g' = goal_id g" and "user_id g' = user_id g"
  using assms by (auto simp: apply_updates_def split: option.splits)

lemma update_goal_success:
  assumes "update_goal env st gid uid updates = (Inr g', st')"
  shows "\<exists>u g. update_goal_updates env st gid uid updates = Inr u \<and>
               repo_get_goal_by_id st gid uid = Some g \<and> apply_updates env g u = Some g' \<and>
               st' = st\<lparr>goals := store_row gid uid g' (goals st)\<rparr>"
  using assms repo_update_goal_success
  by (auto simp: update_goal_def split: sum.splits prod.splits)

lemma update_goal_plain_fields_keys:
  assumes "update_goal_plain_fields env st uid updates = Inr u" and "k \<noteq> ''deadline''"
  shows "u k = updates k"
  using assms
  by (auto simp: update_goal_plain_fields_def and_then_def split: sum.splits if_splits)

lemma update_goal_updates_linked:
  assumes "update_goal_updates env st gid uid updates = Inr u"
    and "''linked_account_id'' \<in> dom updates \<or> ''linked_amount'' \<in> dom updates"
  shows "\<exists>la lm. validate_and_convert_linked_fields env (py_get updates ''linked_account_id'')
                    (py_get updates ''linked_amount'') = Inr (la, lm) \<and>
                 check_linked st uid la lm (Some gid) = Inr () \<and>
                 u ''linked_account_id'' = Some (pyval_of_int la) \<and>
                 u ''linked_amount'' = Some (pyval_of_float lm)"
proof -
  from assms(1) obtain u1 where
    u1: "update_goal_plain_fields env st uid updates = Inr u1"
    and u: "update_goal_linked_fields env st gid uid u1 = Inr u"
    by (auto simp: update_goal_updates_def and_then_def split: sum.splits)
  have keys: "u1 ''linked_account_id'' = updates ''linked_account_id''"
             "u1 ''linked_amount'' = updates ''linked_amount''"
    using update_goal_plain_fields_keys[OF u1] by simp_all
  then have get: "py_get u1 ''linked_account_id'' = py_get updates ''linked_account_id''"
                 "py_get u1 ''linked_amount'' = py_get updates ''linked_amount''"
    by (simp_all add: py_get_def)
  from assms(2) keys have "''linked_account_id'' \<in> dom u1 \<or> ''linked_amount'' \<in> dom u1"
    by (auto simp: dom_def)
  with u show ?thesis
    unfolding update_goal_linked_fields_def get
    by (auto simp: and_then_def split: sum.splits prod.splits)
qed

lemma convert_absent_account:
  assumes "validate_and_convert_linked_fields env PNone lm = Inr (la, lm')"
  shows "la = None"
  using assms
  by (auto simp: validate_and_convert_linked_fields_def and_then_def split: if_splits option.splits)

lemma update_goal_clears_account:
  assumes "''linked_amount'' \<in> dom updates" "''linked_account_id'' \<notin> dom updates"
    and "update_goal env st gid uid updates = (Inr g', st')"
  shows "linked_account_id g' = None \<and> repo_get_goal_by_id st' gid uid = Some g'"
proof -
  from update_goal_success[OF assms(3)] obtain u g where
    u: "update_goal_updates env st gid uid updates = Inr u"
    and g: "repo_get_goal_by_id st gid uid = Some g"
    and a: "apply_updates env g u = Some g'"
    and st': "st' = st\<lparr>goals := store_row gid uid g' (goals st)\<rparr>" by blast
  from update_goal_updates_linked[OF u] assms(1) obtain la lm where
    c: "validate_and_convert_linked_fields env (py_get updates ''linked_account_id'')
          (py_get updates ''linked_amount'') = Inr (la, lm)"
    and ula: "u ''linked_account_id'' = Some (pyval_of_int la)" by blast
  from assms(2) have "py_get updates ''linked_account_id'' = PNone"
    by (auto simp: py_get_def split: option.splits)
  with c have "la = None" using convert_absent_account by simp
  with ula apply_updates_linked(1)[OF a] have none: "linked_account_id g' = None"
    by (simp add: new_value_def pyval_of_int_def)
  from g have ids: "goal_id g = gid" "user_id g = uid"
    by (auto simp: repo_get_goal_by_id_def dest: find_Some_iff[THEN iffD1])
  have "repo_get_goal_by_id st' gid uid = Some g'"
    using g st' ids apply_updates_linked(3,4)[OF a] find_store_row[of g' gid uid "goals st" g]
    by (simp add: repo_get_goal_by_id_def)
  with none show ?thesis by simp
qed

lemma check_linked_no_account [simp]: "check_linked st uid None lm excl = Inr ()"
  by (simp add: check_linked_def)

lemma update_goal_plain_fields_accounts:
  "update_goal_plain_fields env (st\<lparr>accounts := accs\<rparr>) uid updates =
   update_goal_plain_fields env st uid updates"
  by (simp add: update_goal_plain_fields_def validate_user_exists_def user_exists_def)

lemma update_goal_linked_fields_accounts:
  assumes "py_get u ''linked_account_id'' = PNone"
  shows "update_goal_linked_fields env (st\<lparr>accounts := accs\<rparr>) gid uid u =
         update_goal_linked_fields env st gid uid u"
  unfolding update_goal_linked_fields_def assms
  by (simp add: validate_and_convert_linked_fields_def and_then_def split: option.splits)

lemma update_goal_updates_accounts:
  assumes "''linked_amount'' \<in> dom updates" "''linked_account_id'' \<notin> dom updates"
  shows "update_goal_updates env (st\<lparr>accounts := accs\<rparr>) gid uid updates =
         update_goal_updates env st gid uid updates"
proof (cases "update_goal_plain_fields env st uid updates")
  case (Inl e)
  then show ?thesis
    by (simp add: update_goal_updates_def update_goal_plain_fields_accounts and_then_def)
next
  case (Inr u)
  from update_goal_plain_fields_keys[OF Inr, of "''linked_account_id''"] assms(2)
  have "py_get u ''linked_account_id'' = PNone"
    by (auto simp: py_get_def split: option.splits)
  from update_goal_linked_fields_accounts[OF this] Inr show ?thesis
    by (simp add: update_goal_updates_def update_goal_plain_fields_accounts and_then_def)
qed

lemma repo_update_goal_accounts:
  "repo_update_goal env (st\<lparr>accounts := accs\<rparr>) gid uid u =
     (case repo_update_goal env st gid uid u of (r, s) \<Rightarrow> (r, s\<lparr>accounts := accs\<rparr>))"
  by (simp add: repo_update_goal_def repo_get_goal_by_id_def split: option.splits)

lemma scenario_create_A:
  "create_goal env scenario_state 1 goal_A_payload = (Inr (goal_A env), scenario_after_A env)"
  by (simp add: model_defs example_defs)

section \<open>The claims\<close>

text \<open>
  Claim C2.  The claim is that every goal with a \<open>linked_amount\<close> has a
  \<open>linked_account_id\<close>, and that creating and updating preserve this.  \<open>create_goal\<close>
  does not: a payload with \<open>linked_amount = 50\<close> and no \<open>linked_account_id\<close> is accepted,
  and the goal is stored with the amount and without an account.
\<close>

theorem create_goal_linked_amount_without_account:
  "fst (create_goal example_env scenario_state 1 unlinked_amount_payload) = Inr trip_goal \<and>
   repo_get_goal_by_id (snd (create_goal example_env scenario_state 1 unlinked_amount_payload))
     1 1 = Some trip_goal \<and>
   linked_amount trip_goal = Some 50 \<and> linked_account_id trip_goal = None"
  by (simp add: model_defs example_defs)

text \<open>
  Claim C3, as stated: every create or update that sets \<open>linked_amount\<close> runs the
  reservation check, so that no \<open>linked_amount\<close> is committed without it.  It fails for
  an update whose payload holds only \<open>linked_amount\<close>: goal 1 is stored with
  \<open>linked_amount = 9000\<close> although the check against its account, whose balance is 500,
  raises.
\<close>

theorem ledger_check_skipped_counterexample:
  "fst (update_goal example_env example_state 1 1 (amount_only_payload 9000)) =
     Inr ((example_goal 1 1 1000 20005 None (Some 9000))\<lparr>updated_at := 1000\<rparr>) \<and>
   repo_get_goal_by_id
     (snd (update_goal example_env example_state 1 1 (amount_only_payload 9000))) 1 1 =
     Some ((example_goal 1 1 1000 20005 None (Some 9000))\<lparr>updated_at := 1000\<rparr>) \<and>
   \<not> ledger_check_passed example_state 1
       ((example_goal 1 1 1000 20005 None (Some 9000))\<lparr>updated_at := 1000\<rparr>) (Some 1) \<and>
   validate_linked_amount_total example_state 1 7 9000 (Some 1) =
     Inl (GoalValidationError (Cannot_reserve 500 0))"
  by (simp add: model_defs example_defs)

text \<open>
  Claim C3, amended.  A goal that a create, or an update whose payload has one of the
  linked keys, stores with both a \<open>linked_account_id\<close> other than 0 and a
  \<open>linked_amount\<close> has passed the reservation check, run on the goals persisted when
  the operation started (leaving out the goal itself on update); and so has the goal
  that a linked progress contribution stores.
\<close>

theorem ledger_check_on_linked_writes:
  "(create_goal env st uid kwargs = (Inr g, st') \<and> linked_account_id g = Some a \<and> a \<noteq> 0 \<and>
      linked_amount g \<noteq> None \<longrightarrow> ledger_check_passed st uid g None) \<and>
   (update_goal env st gid uid updates = (Inr g, st') \<and>
      (''linked_account_id'' \<in> dom updates \<or> ''linked_amount'' \<in> dom updates) \<and>
      linked_account_id g = Some a \<and> a \<noteq> 0 \<and> linked_amount g \<noteq> None \<longrightarrow>
      ledger_check_passed st uid g (Some gid)) \<and>
   (update_goal_progress env st gid uid amount ''linked'' = (Inr g, st') \<longrightarrow>
      ledger_check_passed st uid g (Some gid))"
proof (intro conjI impI)
  assume h: "create_goal env st uid kwargs = (Inr g, st') \<and> linked_account_id g = Some a \<and>
             a \<noteq> 0 \<and> linked_amount g \<noteq> None"
  with create_goal_linked[of env st uid kwargs g st'] check_linked_passed
  show "ledger_check_passed st uid g None" by blast
next
  assume h: "update_goal env st gid uid updates = (Inr g, st') \<and>
      (''linked_account_id'' \<in> dom updates \<or> ''linked_amount'' \<in> dom updates) \<and>
      linked_account_id g = Some a \<and> a \<noteq> 0 \<and> linked_amount g \<noteq> None"
  then obtain u g0 where
    u: "update_goal_updates env st gid uid updates = Inr u"
    and ap: "apply_updates env g0 u = Some g"
    using update_goal_success by blast
  from update_goal_updates_linked[OF u] h obtain la lm where
    c: "check_linked st uid la lm (Some gid) = Inr ()"
    and ula: "u ''linked_account_id'' = Some (pyval_of_int la)"
    and ulm: "u ''linked_amount'' = Some (pyval_of_float lm)" by blast
  from apply_updates_linked(1,2)[OF ap] ula ulm
  have "linked_account_id g = la" "linked_amount g = lm"
    by (simp_all add: new_value_def)
  with c h check_linked_passed show "ledger_check_passed st uid g (Some gid)" by blast
next
  assume h: "update_goal_progress env st gid uid amount ''linked'' = (Inr g, st')"
  from update_goal_progress_success[OF h] obtain g0 where
    g0: "repo_get_goal_by_id st gid uid = Some g0"
    and g: "g = update_progress env g0 amount ''linked''"
    and ch: "update_goal_progress_checks st gid uid amount ''linked'' = Inr ()" by blast
  from ch g0 show "ledger_check_passed st uid g (Some gid)"
    by (auto simp: update_goal_progress_checks_def and_then_def ledger_check_passed_def g
          update_progress_amounts or_zero_def
        split: sum.splits option.splits if_splits)
qed

text \<open>The three operations on the example state: a create and an update that name
  account 7, and a linked contribution of 100 to goal 1.\<close>

theorem ledger_check_on_linked_writes_witness:
  "fst (create_goal example_env example_state 1 goal_C_payload) = Inr goal_C \<and>
   ledger_check_passed example_state 1 goal_C None \<and>
   fst (update_goal example_env example_state 1 1 relink_payload) =
     Inr ((example_goal 1 1 1000 20005 (Some 7) (Some 300))\<lparr>updated_at := 1000\<rparr>) \<and>
   ledger_check_passed example_state 1
     ((example_goal 1 1 1000 20005 (Some 7) (Some 300))\<lparr>updated_at := 1000\<rparr>) (Some 1) \<and>
   fst (update_goal_progress example_env example_state 1 1 100 ''linked'') =
     Inr ((example_goal 1 1 1000 20005 (Some 7) (Some 300))\<lparr>updated_at := 1000\<rparr>)"
  using
    ledger_check_on_linked_writes[where env = example_env and st = example_state and uid = 1
      and kwargs = goal_C_payload and a = 7 and g = goal_C
      and st' = "snd (create_goal example_env example_state 1 goal_C_payload)"]
    ledger_check_on_linked_writes[where env = example_env and st = example_state and uid = 1
      and gid = 1 and a = 7 and updates = relink_payload
      and g = "(example_goal 1 1 1000 20005 (Some 7) (Some 300))\<lparr>updated_at := 1000\<rparr>"
      and st' = "snd (update_goal example_env example_state 1 1 relink_payload)"]
    ledger_check_on_linked_writes[where env = example_env and st = example_state and uid = 1
      and gid = 1 and amount = 100
      and g = "(example_goal 1 1 1000 20005 (Some 7) (Some 300))\<lparr>updated_at := 1000\<rparr>"
      and st' = "snd (update_goal_progress example_env example_state 1 1 100 ''linked'')"]
  by (simp add: model_defs example_defs)

text \<open>
  Claim C6.  The claim is that get-by-id, update and delete all raise \<open>NotFoundError\<close>
  for a goal that is absent or owned by another user.  \<open>get_goal_by_id\<close> does; in
  \<open>update_goal\<close> and \<open>delete_goal\<close> the repository raises \<open>GoalNotFoundError\<close> and the
  facade's handler for every exception raises \<open>GoalValidationError\<close> in its place.
  The error is the same for an absent goal (99) and for one of another user (3).
\<close>

theorem not_found_wrapped_as_validation_error:
  "get_goal_by_id example_state 99 1 = Inl (GoalNotFoundError (Goal_not_found 99)) \<and>
   get_goal_by_id example_state 3 1 = Inl (GoalNotFoundError (Goal_not_found 3)) \<and>
   update_goal example_env example_state 99 1 retitle_payload =
     (Inl (GoalValidationError (Error_updating (Goal_not_found 99))), example_state) \<and>
   update_goal example_env example_state 3 1 retitle_payload =
     (Inl (GoalValidationError (Error_updating (Goal_not_found 3))), example_state) \<and>
   delete_goal example_state 99 1 =
     (Inl (GoalValidationError (Error_deleting (Goal_not_found 99))), example_state) \<and>
   delete_goal example_state 3 1 =
     (Inl (GoalValidationError (Error_deleting (Goal_not_found 3))), example_state)"
  by (simp add: model_defs example_defs)

text \<open>
  Claim C8.  \<open>get_goals_near_deadline\<close> raises \<open>GoalValidationError\<close> for every \<open>days\<close>
  below 1 or above 30.  For an existing user and \<open>days\<close> from 1 to 30 it returns the
  goals of that user that are \<open>active\<close> and whose deadline lies between today and
  today plus \<open>days\<close>, both included: each such row once and no other, in ascending order
  of deadline.
\<close>

theorem near_deadline_query:
  "(days < 1 \<or> days > 30 \<longrightarrow>
      (\<exists>msg. get_goals_near_deadline env st uid days = Inl (GoalValidationError msg))) \<and>
   (user_exists st uid \<and> 1 \<le> days \<and> days \<le> 30 \<longrightarrow>
      (\<exists>gs. get_goals_near_deadline env st uid days = Inr gs \<and>
            mset gs =
              filter_mset (\<lambda>g. user_id g = uid \<and> status g = ''active'' \<and>
                               (\<exists>d. deadline g = Some d \<and> date_today env \<le> d \<and>
                                    d \<le> date_today env + days))
                (mset (goals st)) \<and>
            sorted (map (\<lambda>g. the (deadline g)) gs)))"
proof (intro conjI impI)
  assume "days < 1 \<or> days > 30"
  then show "\<exists>msg. get_goals_near_deadline env st uid days = Inl (GoalValidationError msg)"
    by (auto simp: get_goals_near_deadline_def and_then_def validate_user_exists_def)
next
  assume a: "user_exists st uid \<and> 1 \<le> days \<and> days \<le> 30"
  then have "get_goals_near_deadline env st uid days =
               Inr (repo_get_goals_near_deadline env st uid days)"
    by (simp add: get_goals_near_deadline_def and_then_def validate_user_exists_def)
  then show "\<exists>gs. get_goals_near_deadline env st uid days = Inr gs \<and>
            mset gs =
              filter_mset (\<lambda>g. user_id g = uid \<and> status g = ''active'' \<and>
                               (\<exists>d. deadline g = Some d \<and> date_today env \<le> d \<and>
                                    d \<le> date_today env + days))
                (mset (goals st)) \<and>
            sorted (map (\<lambda>g. the (deadline g)) gs)"
    using mset_near_deadline sorted_near_deadline by blast
qed

text \<open>With today = 20000: 0 and 31 days are refused; for 7 days user 1 gets goal 2
  (deadline 20002) before goal 1 (deadline 20005), and neither goal 4 (deadline 20040)
  nor goal 3 of user 2.\<close>

theorem near_deadline_query_witness:
  "get_goals_near_deadline example_env example_state 1 0 =
     Inl (GoalValidationError Days_out_of_range) \<and>
   get_goals_near_deadline example_env example_state 1 31 =
     Inl (GoalValidationError Days_out_of_range) \<and>
   get_goals_near_deadline example_env example_state 1 7 =
     Inr [example_goal 2 1 100 20002 None None,
          example_goal 1 1 1000 20005 (Some 7) (Some 200)]"
  using
    near_deadline_query[where env = example_env and st = example_state and uid = 1 and days = 0]
    near_deadline_query[where env = example_env and st = example_state and uid = 1 and days = 31]
    near_deadline_query[where env = example_env and st = example_state and uid = 1 and days = 7]
  by (simp add: model_defs example_defs)

text \<open>
  Claim C9.  An update whose payload has the key \<open>linked_amount\<close> and not the key
  \<open>linked_account_id\<close>, when it succeeds, stores the goal with \<open>linked_account_id = None\<close>,
  whatever account was linked before; and it does not run the reservation check: its
  outcome is the same whatever the accounts table holds.
\<close>

theorem update_linked_amount_only_clears_account:
  assumes "''linked_amount'' \<in> dom updates" and "''linked_account_id'' \<notin> dom updates"
  shows "(update_goal env st gid uid updates = (Inr g', st') \<longrightarrow>
            linked_account_id g' = None \<and> repo_get_goal_by_id st' gid uid = Some g') \<and>
         update_goal env (st\<lparr>accounts := accs\<rparr>) gid uid updates =
           (case update_goal env st gid uid updates of (r, s) \<Rightarrow> (r, s\<lparr>accounts := accs\<rparr>))"
proof (intro conjI impI)
  assume "update_goal env st gid uid updates = (Inr g', st')"
  from update_goal_clears_account[OF assms this]
  show "linked_account_id g' = None" "repo_get_goal_by_id st' gid uid = Some g'"
    by simp_all
next
  show "update_goal env (st\<lparr>accounts := accs\<rparr>) gid uid updates =
           (case update_goal env st gid uid updates of (r, s) \<Rightarrow> (r, s\<lparr>accounts := accs\<rparr>))"
    by (simp add: update_goal_def update_goal_updates_accounts[OF assms]
          repo_update_goal_accounts split: sum.splits prod.splits)
qed

text \<open>Goal 1 is linked to account 7, on which the check refuses 501; the update to
  \<open>linked_amount = 501\<close> succeeds and leaves the goal without account.\<close>

theorem update_linked_amount_only_clears_account_witness:
  "linked_account_id (example_goal 1 1 1000 20005 (Some 7) (Some 200)) = Some 7 \<and>
   repo_get_goal_by_id example_state 1 1 =
     Some (example_goal 1 1 1000 20005 (Some 7) (Some 200)) \<and>
   validate_linked_amount_total example_state 1 7 501 (Some 1) =
     Inl (GoalValidationError (Cannot_reserve 500 0)) \<and>
   fst (update_goal example_env example_state 1 1 (amount_only_payload 501)) =
     Inr ((example_goal 1 1 1000 20005 None (Some 501))\<lparr>updated_at := 1000\<rparr>)"
  using
    update_linked_amount_only_clears_account[where updates = "amount_only_payload 501"
      and env = example_env and st = example_state and gid = 1 and uid = 1 and accs = "[]"
      and g' = "(example_goal 1 1 1000 20005 None (Some 501))\<lparr>updated_at := 1000\<rparr>"
      and st' = "snd (update_goal example_env example_state 1 1 (amount_only_payload 501))"]
  by (simp add: model_defs example_defs)

text \<open>
  Claim C10.  Every goal that \<open>create_goal\<close> returns has status \<open>active\<close> and
  \<open>current_amount = 0\<close> and is in the stored goals; and whatever the payload gives under
  the keys \<open>status\<close> and \<open>current_amount\<close> makes no difference to the outcome.
\<close>

theorem create_goal_defaults:
  "(create_goal env st uid kwargs = (Inr g, st') \<longrightarrow>
      status g = ''active'' \<and> current_amount g = 0 \<and> g \<in> set (goals st')) \<and>
   create_goal env st uid (kwargs(''status'' \<mapsto> v, ''current_amount'' \<mapsto> w)) =
     create_goal env st uid kwargs"
proof (intro conjI impI)
  assume a: "create_goal env st uid kwargs = (Inr g, st')"
  from create_goal_success[OF a] obtain data where
    "repo_create_goal env st uid data = (Inr g, st')" by blast
  from repo_create_goal_fields[OF this]
  show "status g = ''active''" "current_amount g = 0" "g \<in> set (goals st')"
    by simp_all
next
  show "create_goal env st uid (kwargs(''status'' \<mapsto> v, ''current_amount'' \<mapsto> w)) =
     create_goal env st uid kwargs"
    by (simp only: create_goal_def create_goal_data_ignores)
qed

text \<open>Goal A's payload with \<open>status = completed\<close> and \<open>current_amount = 999\<close> added
  creates the same goal A.\<close>

theorem create_goal_defaults_witness:
  "fst (create_goal example_env scenario_state 1 goal_A_payload_with_status) =
     Inr (goal_A example_env) \<and>
   status (goal_A example_env) = ''active'' \<and> current_amount (goal_A example_env) = 0"
  using
    create_goal_defaults[where env = example_env and st = scenario_state and uid = 1
      and kwargs = goal_A_payload and v = "PStr ''completed''" and w = "PInt 999"
      and g = "goal_A example_env" and st' = "scenario_after_A example_env"]
    scenario_create_A[of example_env]
  by (simp add: model_defs example_defs)

end
